theory Spec2Isabelle
  imports Complex_Main
begin

section \<open>Numbers and strings of the host language\<close>

text \<open>
  The estimation pipeline computes on JavaScript numbers. Its arithmetic is modelled on
  \<^typ>\<open>real\<close>: every finite operation is exact (the rounding of IEEE-754 doubles is
  not part of the model). \<open>Math.cbrt\<close> is \<^term>\<open>root 3\<close>, \<open>Math.sqrt\<close> is
  \<^const>\<open>sqrt\<close>, \<open>Math.log10\<close> is \<^term>\<open>log 10\<close>, \<open>Math.pow\<close> with a positive
  base is \<^const>\<open>powr\<close>, \<open>Math.round\<close> is \<^const>\<open>round\<close> (both round halves up)
  and \<open>Math.PI\<close> is \<^const>\<open>pi\<close>. A value that may be \<open>null\<close> is an
  \<^typ>\<open>'a option\<close>.
\<close>

definition clamp :: "real \<Rightarrow> real \<Rightarrow> real \<Rightarrow> real" where
  "clamp v lo hi = max lo (min hi v)"

definition digit_char :: "nat \<Rightarrow> char" where
  "digit_char d =
     (if d = 0 then CHR ''0'' else if d = 1 then CHR ''1'' else if d = 2 then CHR ''2''
      else if d = 3 then CHR ''3'' else if d = 4 then CHR ''4'' else if d = 5 then CHR ''5''
      else if d = 6 then CHR ''6'' else if d = 7 then CHR ''7'' else if d = 8 then CHR ''8''
      else CHR ''9'')"

text \<open>The decimal numeral of a non-negative integer, as a template literal prints it.\<close>

fun string_of_nat :: "nat \<Rightarrow> string" where
  "string_of_nat n =
     (if n < 10 then [digit_char n]
      else string_of_nat (n div 10) @ [digit_char (n mod 10)])"

text \<open>
  \<open>Number.prototype.toFixed(f)\<close> for a finite number below \<open>10^21\<close> in magnitude: the
  sign is taken before rounding, the magnitude is scaled by \<open>10^f\<close> and rounded to the
  nearest integer (the larger one on a tie), and the digits are padded with zeros so that
  at least one digit stands before the point.
\<close>

definition toFixed :: "nat \<Rightarrow> real \<Rightarrow> string" where
  "toFixed f x =
     (let s = (if x < 0 then ''-'' else '''');
          n = nat \<lfloor>\<bar>x\<bar> * 10 ^ f + 1 / 2\<rfloor>;
          m = string_of_nat n
      in if f = 0 then s @ m
         else (let m' = replicate (f + 1 - length m) (CHR ''0'') @ m;
                   k = length m' - f
               in s @ take k m' @ ''.'' @ drop k m'))"

text \<open>Characters outside ASCII are written as their UTF-8 bytes.\<close>

definition approx_sign :: string where
  "approx_sign = [CHR 0xE2, CHR 0x89, CHR 0x88]"

section \<open>Tsunami estimator (src/lib/tsunami.ts)\<close>

datatype terrain_kind =
  Ocean_Sea | Coastal_Low_lying | Plains_Valley | Hills_Plateau | Mountains | Unknown

datatype tsunami_risk =
  EXTREME | HIGH | MODERATE | LOW | NEGLIGIBLE | Unable_to_determine

record TsunamiAssessment =
  elevation :: "real option"
  terrain :: terrain_kind
  risk :: tsunami_risk
  waveDeepM :: "real option"
  waveCoastM :: "real option"
  "notes" :: "string list"

text \<open>
  The outcome of the request to the elevation service is an input of the model: the
  request either fails (network error, malformed JSON: the \<open>catch\<close> branch) or
  yields a response whose \<open>results[0].elevation\<close> field may be missing. The
  coordinates only go into the request.
\<close>

datatype elevation_lookup = LookupFailed | LookupResponse "real option"

definition fetched_elevation :: "elevation_lookup \<Rightarrow> real option" where
  "fetched_elevation r = (case r of LookupFailed \<Rightarrow> None | LookupResponse e \<Rightarrow> e)"

definition classify_elevation :: "real option \<Rightarrow> terrain_kind" where
  "classify_elevation elev =
     (case elev of
        None \<Rightarrow> Unknown
      | Some e \<Rightarrow>
          if e < 0 then Ocean_Sea
          else if e < 10 then Coastal_Low_lying
          else if e < 100 then Plains_Valley
          else if e < 500 then Hills_Plateau
          else Mountains)"

definition risk_of_wave :: "real option \<Rightarrow> tsunami_risk" where
  "risk_of_wave w =
     (case w of
        None \<Rightarrow> Unable_to_determine
      | Some c \<Rightarrow>
          if c > 50 then EXTREME
          else if c > 15 then HIGH
          else if c > 5 then MODERATE
          else if c > 1 then LOW
          else NEGLIGIBLE)"

definition assessTsunami ::
  "elevation_lookup \<Rightarrow> real \<Rightarrow> real \<Rightarrow> real \<Rightarrow> real \<Rightarrow> TsunamiAssessment" where
  "assessTsunami response lat lon energyTNT craterKm =
     (let elev = fetched_elevation response;
          terr = classify_elevation elev
      in case elev of
           None \<Rightarrow>
             \<lparr>elevation = elev, terrain = terr, risk = Unable_to_determine,
              waveDeepM = None, waveCoastM = None,
              notes = [''Elevation service unavailable'']\<rparr>
         | Some e \<Rightarrow>
             (let cbrtE = root 3 (max energyTNT 0)
              in if terr = Ocean_Sea then
                   (let depth = \<bar>e\<bar>;
                        depthCap = clamp depth 200 6000;
                        deep = 0.6 * cbrtE * sqrt (depthCap / 4000);
                        hDeep = 4000;
                        hCoast = 50;
                        shoal = (hDeep / hCoast) powr 0.25;
                        coast = clamp (deep * shoal) 1 120
                    in \<lparr>elevation = elev, terrain = terr, risk = risk_of_wave (Some coast),
                        waveDeepM = Some deep, waveCoastM = Some coast,
                        notes = [''Ocean impact (depth '' @ approx_sign @ '' ''
                                 @ toFixed 0 depth @ '' m)'']\<rparr>)
                 else if terr = Coastal_Low_lying then
                   (let coast = clamp (0.35 * cbrtE + 0.1 * craterKm) 0.5 30
                    in \<lparr>elevation = elev, terrain = terr, risk = risk_of_wave (Some coast),
                        waveDeepM = Some 0, waveCoastM = Some coast,
                        notes = [''Coastal land impact: surge & local inundation likely'']\<rparr>)
                 else
                   \<lparr>elevation = elev, terrain = terr, risk = risk_of_wave (Some 0),
                    waveDeepM = Some 0, waveCoastM = Some 0, notes = []\<rparr>))"


section \<open>Population density and casualties (src/lib/casualty.ts)\<close>

datatype density_source = Overpass | Terrain_fallback

text \<open>
  The category of a density assessment is the string the code stores: a \<open>place\<close> tag
  accepted from the lookup, or one of the literals \<open>rural\<close>, \<open>coast\<close>, \<open>unknown\<close>.
\<close>

record DensityAssessment =
  densityPkm2 :: real
  category :: string
  source :: density_source
  "note" :: "string option"

record CasualtyEstimate =
  density :: DensityAssessment
  areaKm2 :: real
  fatalityRate :: real
  casualties :: real














section \<open>Lethality breakdown (src/ui/riskmodel.ts)\<close>

definition haversineKm :: "real \<Rightarrow> real \<Rightarrow> real \<Rightarrow> real \<Rightarrow> real" where
  "haversineKm lat1 lon1 lat2 lon2 =
     (let R = 6371;
          toRad = (\<lambda>d. (d * pi) / 180);
          dLat = toRad (lat2 - lat1);
          dLon = toRad (lon2 - lon1);
          a = (sin (dLat / 2)) ^ 2 + cos (toRad lat1) * cos (toRad lat2) * (sin (dLon / 2)) ^ 2;
          c = 2 * arcsin (min 1 (sqrt a))
      in R * c)"

text \<open>
  The optional fields of the inputs (\<open>approachAngleDeg\<close>, \<open>targetElevationM\<close>,
  \<open>targetIsCoastal\<close>) are options; a missing field is \<open>None\<close>.
\<close>

record HazardInputs =
  impactLat :: real
  impactLon :: real
  blastKm :: real
  seismicKm :: real
  tsunamiKm :: real
  approachAngleDeg :: "real option"
  targetElevationM :: "real option"
  targetIsCoastal :: "bool option"

datatype hazard = Blast | Seismic | Tsunami | NoHazard

record HazardBreakdown =
  distanceKm :: real
  blastRisk :: real
  seismicRisk :: real
  tsunamiRisk :: real
  dominantHazard :: hazard
  killProbability :: real
  isLethal :: bool
  rationale :: string

definition sigmoidFalloff :: "real \<Rightarrow> real \<Rightarrow> real \<Rightarrow> real" where
  "sigmoidFalloff distKm innerKm outerKm =
     (if outerKm \<le> innerKm then (if distKm \<le> innerKm then 1 else 0)
      else if distKm \<le> innerKm then 1
      else (let t = min 1 (max 0 ((distKm - innerKm) / (outerKm - innerKm)));
                s = 1 - (3 * t * t - 2 * t * t * t)
            in max 0 (min 1 s)))"

definition seismicAngleModifier :: "real option \<Rightarrow> real" where
  "seismicAngleModifier angleDeg =
     (case angleDeg of
        None \<Rightarrow> 1
      | Some a \<Rightarrow> if a < 20 then 0.85 else if a < 35 then 0.93 else 1)"

definition tsunamiCoastalModifier :: "bool option \<Rightarrow> real" where
  "tsunamiCoastalModifier isCoastal = (if isCoastal = Some True then 1 else 0.15)"

definition tsunamiElevationModifier :: "real option \<Rightarrow> real" where
  "tsunamiElevationModifier elevationM =
     (case elevationM of
        None \<Rightarrow> 1
      | Some e \<Rightarrow> if e \<ge> 50 then 0.25 else if e \<ge> 20 then 0.5 else 1)"

text \<open>\<open>Number(x.toFixed(f))\<close>: the number that the digits of \<open>toFixed\<close> denote.\<close>

definition Number_toFixed :: "nat \<Rightarrow> real \<Rightarrow> real" where
  "Number_toFixed f x =
     (if x < 0 then - (real (nat \<lfloor>\<bar>x\<bar> * 10 ^ f + 1 / 2\<rfloor>) / 10 ^ f)
      else real (nat \<lfloor>\<bar>x\<bar> * 10 ^ f + 1 / 2\<rfloor>) / 10 ^ f)"

definition hazard_name :: "hazard \<Rightarrow> string" where
  "hazard_name h =
     (case h of Blast \<Rightarrow> ''blast'' | Seismic \<Rightarrow> ''seismic'' | Tsunami \<Rightarrow> ''tsunami''
      | NoHazard \<Rightarrow> ''none'')"

definition clamp01 :: "real \<Rightarrow> real" where
  "clamp01 n = min 1 (max 0 n)"

definition assessLethality :: "HazardInputs \<Rightarrow> real \<Rightarrow> real \<Rightarrow> HazardBreakdown" where
  "assessLethality inputs targetLat targetLon =
     (let dist = haversineKm (impactLat inputs) (impactLon inputs) targetLat targetLon;
          blastInner = max 1 (0.45 * blastKm inputs);
          blastOuter = blastKm inputs;
          seismicInner = max 1 (0.45 * seismicKm inputs);
          seismicOuter = seismicKm inputs;
          tsunamiInner = max 1 (0.45 * tsunamiKm inputs);
          tsunamiOuter = tsunamiKm inputs;
          blastRisk0 = sigmoidFalloff dist blastInner blastOuter;
          seismicRisk0 = sigmoidFalloff dist seismicInner seismicOuter;
          tsunamiRisk0 = sigmoidFalloff dist tsunamiInner tsunamiOuter;
          seismicRisk1 = seismicRisk0 * seismicAngleModifier (approachAngleDeg inputs);
          tsunamiRisk1 = tsunamiRisk0 * tsunamiCoastalModifier (targetIsCoastal inputs);
          tsunamiRisk2 = tsunamiRisk1 * tsunamiElevationModifier (targetElevationM inputs);
          bRisk = clamp01 blastRisk0;
          sRisk = clamp01 seismicRisk1;
          tRisk = clamp01 tsunamiRisk2;
          surviveAll = (1 - bRisk) * (1 - sRisk) * (1 - tRisk);
          killP = clamp01 (1 - surviveAll);
          maxRisk = max (max bRisk sRisk) tRisk;
          dominant = (if maxRisk > 0
                      then (if maxRisk = bRisk then Blast
                            else if maxRisk = sRisk then Seismic else Tsunami)
                      else NoHazard);
          lethal = (killP \<ge> 0.5);
          why = (if lethal
                 then ''High fatality risk due to '' @ hazard_name dominant @ '' at ''
                      @ toFixed 1 dist @ '' km from impact.''
                 else ''Sub-lethal at '' @ toFixed 1 dist
                      @ '' km; estimated kill probability '' @ toFixed 0 (killP * 100) @ ''%.'')
      in \<lparr>distanceKm = Number_toFixed 2 dist,
          blastRisk = Number_toFixed 2 bRisk,
          seismicRisk = Number_toFixed 2 sRisk,
          tsunamiRisk = Number_toFixed 2 tRisk,
          dominantHazard = dominant,
          killProbability = Number_toFixed 2 killP,
          isLethal = lethal,
          rationale = why\<rparr>)"

section \<open>Energy and effect radii (src/state/useSimStore.ts)\<close>

definition estimateEnergyMtTNT :: "real \<Rightarrow> real \<Rightarrow> real \<Rightarrow> real" where
  "estimateEnergyMtTNT size_m density_kgm3 speed_kms =
     (let r = size_m / 2;
          vol = (4 / 3) * pi * r * r * r;
          mass = density_kgm3 * vol;
          v = speed_kms * 1000;
          joules = 0.5 * mass * v * v
      in joules / (4.184 * 10 ^ 15))"

text \<open>
  The part of the store that \<open>recalcHazards\<close> reads and writes. The fields \<open>size\<close>,
  \<open>speed\<close> and \<open>density\<close> of the source appear in the store and in its readouts; they
  carry the record's name here to keep them apart (and apart from the density assessment
  of a casualty estimate).
\<close>

record Readouts =
  readout_speed :: real
  readout_size :: real
  readout_density :: real
  eta :: real
  energyTNT :: real
  craterKm :: real

record SimState =
  time :: real
  duration :: real
  sim_size :: real
  sim_speed :: real
  sim_density :: real
  blastKm :: real
  seismicKm :: real
  tsunamiKm :: real
  readouts :: Readouts

text \<open>
  The optional argument \<open>n\<close> of \<open>recalcHazards\<close> may override each of size, speed and
  density (\<open>n?.size ?? get().size\<close>); the call replaces the three radii and the readouts
  of the store.
\<close>

record HazardOverride =
  new_size :: "real option"
  new_speed :: "real option"
  new_density :: "real option"

definition recalcHazards :: "HazardOverride option \<Rightarrow> SimState \<Rightarrow> SimState" where
  "recalcHazards n s =
     (let size_m = (case Option.bind n new_size of Some x \<Rightarrow> x | None \<Rightarrow> sim_size s);
          speed_kms = (case Option.bind n new_speed of Some x \<Rightarrow> x | None \<Rightarrow> sim_speed s);
          dens = (case Option.bind n new_density of Some x \<Rightarrow> x | None \<Rightarrow> sim_density s);
          E = estimateEnergyMtTNT size_m dens speed_kms;
          blast = 80 + E * 5;
          seismic = 40 + E * 2;
          tsunami = 120 + E * 6;
          crater = root 3 E * 1.2
      in s\<lparr>blastKm := blast, seismicKm := seismic, tsunamiKm := tsunami,
           readouts := \<lparr>readout_speed = speed_kms, readout_size = size_m,
                         readout_density = dens, eta = duration s - time s,
                         energyTNT = E, craterKm = crater\<rparr>\<rparr>)"

text \<open>The initial values of the store (\<open>base\<close>), for the fields modelled.\<close>

definition base :: SimState where
  "base = \<lparr>time = 0, duration = 10, sim_size = 120, sim_speed = 18, sim_density = 3000,
            blastKm = 0, seismicKm = 0, tsunamiKm = 0,
            readouts = \<lparr>readout_speed = 0, readout_size = 0, readout_density = 0, eta = 0,
                          energyTNT = 0, craterKm = 0\<rparr>\<rparr>"

section \<open>Bounds on the constants of the arithmetic\<close>

text \<open>
  \<open>Math.PI\<close> enters the energy and the affected area. Machin's formula and two
  polynomials that enclose the arc tangent on the non-negative reals give its first digits.
\<close>

lemma arctan_upper_poly:
  assumes "0 \<le> (x::real)"
  shows "arctan x \<le> x - x^3/3 + x^5/5 - x^7/7 + x^9/9"
proof -
  let ?f = "\<lambda>x::real. x - x^3/3 + x^5/5 - x^7/7 + x^9/9 - arctan x"
  have "?f 0 \<le> ?f x"
  proof (rule DERIV_nonneg_imp_nondecreasing[OF assms])
    fix t :: real assume "0 \<le> t" "t \<le> x"
    have d: "(?f has_real_derivative (1 - t^2 + t^4 - t^6 + t^8 - 1 / (1 + t^2))) (at t)"
      by (auto intro!: derivative_eq_intros simp: field_simps)
    have p: "0 < 1 + t^2" by (simp add: add_pos_nonneg)
    have "(1 - t^2 + t^4 - t^6 + t^8) * (1 + t^2) = 1 + t^10" by (simp add: algebra_simps power_add[symmetric] power2_eq_square[symmetric]) 
    then have "1 - t^2 + t^4 - t^6 + t^8 - 1 / (1 + t^2) = t^10 / (1 + t^2)"
      using p by (simp add: field_simps)
    moreover have "0 \<le> t^10 / (1 + t^2)" using p by simp
    ultimately show "\<exists>y. (?f has_real_derivative y) (at t) \<and> 0 \<le> y" using d by auto
  qed
  then show ?thesis by simp
qed

lemma arctan_lower_poly:
  assumes "0 \<le> (x::real)"
  shows "x - x^3/3 + x^5/5 - x^7/7 \<le> arctan x"
proof -
  let ?f = "\<lambda>x::real. arctan x - (x - x^3/3 + x^5/5 - x^7/7)"
  have "?f 0 \<le> ?f x"
  proof (rule DERIV_nonneg_imp_nondecreasing[OF assms])
    fix t :: real assume "0 \<le> t" "t \<le> x"
    have d: "(?f has_real_derivative (1 / (1 + t^2) - (1 - t^2 + t^4 - t^6))) (at t)"
      by (auto intro!: derivative_eq_intros simp: field_simps)
    have p: "0 < 1 + t^2" by (simp add: add_pos_nonneg)
    have "(1 - t^2 + t^4 - t^6) * (1 + t^2) = 1 - t^8" by (simp add: algebra_simps power_add[symmetric] power2_eq_square[symmetric]) 
    then have "1 / (1 + t^2) - (1 - t^2 + t^4 - t^6) = t^8 / (1 + t^2)"
      using p by (simp add: field_simps)
    moreover have "0 \<le> t^8 / (1 + t^2)" using p by simp
    ultimately show "\<exists>y. (?f has_real_derivative y) (at t) \<and> 0 \<le> y" using d by auto
  qed
  then show ?thesis by simp
qed

lemma pi_bounds: "3.14159 < pi \<and> pi < 3.1416"
proof -
  define lo5 :: real where "lo5 = (1/5) - (1/5)^3/3 + (1/5)^5/5 - (1/5)^7/7"
  define hi5 :: real where "hi5 = (1/5) - (1/5)^3/3 + (1/5)^5/5 - (1/5)^7/7 + (1/5)^9/9"
  define lo239 :: real where "lo239 = (1/239) - (1/239)^3/3 + (1/239)^5/5 - (1/239)^7/7"
  define hi239 :: real where
    "hi239 = (1/239) - (1/239)^3/3 + (1/239)^5/5 - (1/239)^7/7 + (1/239)^9/9"
  have m: "pi = 16 * arctan (1 / 5) - 4 * arctan (1 / 239)"
    using machin by simp
  have u5: "arctan (1 / 5) \<le> hi5"
    unfolding hi5_def by (rule arctan_upper_poly) simp
  have l5: "lo5 \<le> arctan (1 / 5)"
    unfolding lo5_def by (rule arctan_lower_poly) simp
  have u239: "arctan (1 / 239) \<le> hi239"
    unfolding hi239_def by (rule arctan_upper_poly) simp
  have l239: "lo239 \<le> arctan (1 / 239)"
    unfolding lo239_def by (rule arctan_lower_poly) simp
  have n1: "314159 / 100000 < 16 * lo5 - 4 * hi239"
    by (simp add: lo5_def hi239_def power_one_over)
  have n2: "16 * hi5 - 4 * lo239 < 31416 / 10000"
    by (simp add: hi5_def lo239_def power_one_over)
  have lo: "314159 / 100000 < pi" using l5 u239 n1 unfolding m by linarith
  have hi: "pi < 31416 / 10000" using u5 l239 n2 unfolding m by linarith
  show ?thesis using lo hi by simp
qed
section \<open>Properties of the tsunami estimator\<close>

lemma fourth_root_80_bounds: "2 < (80::real) powr 0.25 \<and> (80::real) powr 0.25 < 3"
proof -
  have e: "((80::real) powr 0.25) ^ 4 = 80"
  proof -
    have "((80::real) powr (1 / 4)) powr (real 4) = 80 powr ((1 / 4) * real 4)"
      by (rule powr_powr)
    then have "((80::real) powr (1 / 4)) powr (real 4) = 80" by simp
    moreover have "((80::real) powr (1 / 4)) powr (real 4) = ((80::real) powr (1 / 4)) ^ 4"
      by (rule powr_realpow) simp
    ultimately show ?thesis by simp
  qed
  have p: "0 \<le> (80::real) powr 0.25" by simp
  have "\<not> (80::real) powr 0.25 \<le> 2"
  proof
    assume "(80::real) powr 0.25 \<le> 2"
    then have "((80::real) powr 0.25) ^ 4 \<le> 2 ^ 4" using p by (rule power_mono)
    with e show False by simp
  qed
  moreover have "\<not> 3 \<le> (80::real) powr 0.25"
  proof
    assume "3 \<le> (80::real) powr 0.25"
    then have "(3::real) ^ 4 \<le> ((80::real) powr 0.25) ^ 4" by (rule power_mono) simp
    with e show False by simp
  qed
  ultimately show ?thesis by simp
qed

lemma assessTsunami_ocean_record:
  assumes "fetched_elevation response = Some e" and "e < 0"
  shows "assessTsunami response lat lon E crater_km =
    (let deep = 0.6 * root 3 (max E 0) * sqrt (clamp \<bar>e\<bar> 200 6000 / 4000);
         coast = clamp (deep * (4000 / 50) powr 0.25) 1 120
     in \<lparr>elevation = Some e, terrain = Ocean_Sea, risk = risk_of_wave (Some coast),
         waveDeepM = Some deep, waveCoastM = Some coast,
         notes = [''Ocean impact (depth '' @ approx_sign @ '' '' @ toFixed 0 \<bar>e\<bar> @ '' m)'']\<rparr>)"
  using assms by (simp only: assessTsunami_def classify_elevation_def Let_def option.case if_True refl)

text \<open>
  C8. When the elevation lookup fails, or answers without an elevation, the assessment has
  terrain Unknown, risk 'Unable to determine' and both wave heights null. The function
  returns this record as an ordinary value: it has no error result.
\<close>

theorem assessTsunami_elevation_unavailable:
  "fetched_elevation response = None \<Longrightarrow>
   terrain (assessTsunami response lat lon energy_tnt crater_km) = Unknown \<and>
   risk (assessTsunami response lat lon energy_tnt crater_km) = Unable_to_determine \<and>
   waveDeepM (assessTsunami response lat lon energy_tnt crater_km) = None \<and>
   waveCoastM (assessTsunami response lat lon energy_tnt crater_km) = None \<and>
   elevation (assessTsunami response lat lon energy_tnt crater_km) = None"
  by (simp add: assessTsunami_def classify_elevation_def)

theorem assessTsunami_elevation_unavailable_witness:
  "fetched_elevation LookupFailed = None \<and>
   terrain (assessTsunami LookupFailed 10 70 50 2) = Unknown \<and>
   risk (assessTsunami LookupFailed 10 70 50 2) = Unable_to_determine \<and>
   waveDeepM (assessTsunami LookupFailed 10 70 50 2) = None \<and>
   waveCoastM (assessTsunami LookupFailed 10 70 50 2) = None"
proof -
  have h: "fetched_elevation LookupFailed = None"
    by (simp add: fetched_elevation_def)
  show ?thesis
    using h assessTsunami_elevation_unavailable [OF h, of 10 70 50 2]
    by simp
qed

text \<open>
  C4. For a known negative elevation (terrain Ocean/Sea) and energy \<open>E \<ge> 0\<close>, the deep-water
  wave is \<open>0.6 * cbrt E * sqrt (clamp(|elevation|, 200, 6000) / 4000)\<close>, the coastal wave
  is the deep-water wave times \<open>(4000/50)^0.25\<close> clamped to \<open>[1, 120]\<close>, and the risk tier
  is read off the coastal wave: above 50 EXTREME, above 15 HIGH, above 5 MODERATE, above 1
  LOW, otherwise NEGLIGIBLE.
\<close>

theorem assessTsunami_ocean:
  fixes lat lon crater_km :: real
  assumes "fetched_elevation response = Some e" and "e < 0" and "0 \<le> E"
  defines "a \<equiv> assessTsunami response lat lon E crater_km"
  defines "deep \<equiv> 0.6 * root 3 E * sqrt (max 200 (min 6000 \<bar>e\<bar>) / 4000)"
  defines "coast \<equiv> max 1 (min 120 (deep * (4000 / 50) powr 0.25))"
  shows "terrain a = Ocean_Sea \<and> waveDeepM a = Some deep \<and> waveCoastM a = Some coast \<and>
         risk a = (if coast > 50 then EXTREME else if coast > 15 then HIGH
                   else if coast > 5 then MODERATE else if coast > 1 then LOW
                   else NEGLIGIBLE)"
proof -
  have m: "max E 0 = E" using assms(3) by simp
  have r: "a = \<lparr>elevation = Some e, terrain = Ocean_Sea, risk = risk_of_wave (Some coast),
         waveDeepM = Some deep, waveCoastM = Some coast,
         notes = [''Ocean impact (depth '' @ approx_sign @ '' '' @ toFixed 0 \<bar>e\<bar> @ '' m)'']\<rparr>"
    unfolding a_def deep_def coast_def
    by (simp only: assessTsunami_ocean_record [OF assms(1,2)] Let_def m clamp_def)
  show ?thesis
    unfolding r by (simp add: risk_of_wave_def)
qed

theorem assessTsunami_ocean_witness:
  "fetched_elevation (LookupResponse (Some (- 4000))) = Some (- 4000) \<and>
   (- 4000 :: real) < 0 \<and> (0::real) \<le> 8 \<and>
   terrain (assessTsunami (LookupResponse (Some (- 4000))) 10 70 8 2) = Ocean_Sea \<and>
   waveDeepM (assessTsunami (LookupResponse (Some (- 4000))) 10 70 8 2) = Some 1.2 \<and>
   waveCoastM (assessTsunami (LookupResponse (Some (- 4000))) 10 70 8 2)
     = Some (1.2 * 80 powr 0.25) \<and>
   risk (assessTsunami (LookupResponse (Some (- 4000))) 10 70 8 2) = LOW"
proof -
  have h: "fetched_elevation (LookupResponse (Some (- 4000))) = Some (- 4000)"
    by (simp add: fetched_elevation_def)
  have r: "root 3 (8::real) = 2"
    using real_root_pos2 [of 3 "2::real"] by simp
  have b: "2 < (80::real) powr (1 / 4)" "(80::real) powr (1 / 4) < 3"
    using fourth_root_80_bounds by simp_all
  have t: "terrain (assessTsunami (LookupResponse (Some (- 4000))) 10 70 8 2) = Ocean_Sea \<and>
     waveDeepM (assessTsunami (LookupResponse (Some (- 4000))) 10 70 8 2)
       = Some (0.6 * root 3 8 * sqrt (max 200 (min 6000 \<bar>- 4000\<bar>) / 4000)) \<and>
     waveCoastM (assessTsunami (LookupResponse (Some (- 4000))) 10 70 8 2)
       = Some (max 1 (min 120 (0.6 * root 3 8 * sqrt (max 200 (min 6000 \<bar>- 4000\<bar>) / 4000)
            * (4000 / 50) powr 0.25))) \<and>
     risk (assessTsunami (LookupResponse (Some (- 4000))) 10 70 8 2)
       = (if max 1 (min 120 (0.6 * root 3 8 * sqrt (max 200 (min 6000 \<bar>- 4000\<bar>) / 4000)
            * (4000 / 50) powr 0.25)) > 50 then EXTREME
          else if max 1 (min 120 (0.6 * root 3 8 * sqrt (max 200 (min 6000 \<bar>- 4000\<bar>) / 4000)
            * (4000 / 50) powr 0.25)) > 15 then HIGH
          else if max 1 (min 120 (0.6 * root 3 8 * sqrt (max 200 (min 6000 \<bar>- 4000\<bar>) / 4000)
            * (4000 / 50) powr 0.25)) > 5 then MODERATE
          else if max 1 (min 120 (0.6 * root 3 8 * sqrt (max 200 (min 6000 \<bar>- 4000\<bar>) / 4000)
            * (4000 / 50) powr 0.25)) > 1 then LOW else NEGLIGIBLE)"
    by (rule assessTsunami_ocean [OF h]) simp_all
  have c: "max 1 (min 120 (0.6 * root 3 8 * sqrt (max 200 (min 6000 \<bar>- 4000\<bar>) / 4000)
            * (4000 / 50) powr 0.25)) = 1.2 * (80::real) powr 0.25"
    using b by (simp add: r)
  show ?thesis
    using h b t unfolding c by (simp add: r)
qed

section \<open>Properties of the density assessor\<close>














section \<open>Properties of the energy model\<close>

lemma recalcHazards_fields:
  "energyTNT (readouts (recalcHazards n s)) =
     estimateEnergyMtTNT (case Option.bind n new_size of Some x \<Rightarrow> x | None \<Rightarrow> sim_size s)
       (case Option.bind n new_density of Some x \<Rightarrow> x | None \<Rightarrow> sim_density s)
       (case Option.bind n new_speed of Some x \<Rightarrow> x | None \<Rightarrow> sim_speed s)"
  "blastKm (recalcHazards n s) = 80 + energyTNT (readouts (recalcHazards n s)) * 5"
  "seismicKm (recalcHazards n s) = 40 + energyTNT (readouts (recalcHazards n s)) * 2"
  "tsunamiKm (recalcHazards n s) = 120 + energyTNT (readouts (recalcHazards n s)) * 6"
  "craterKm (readouts (recalcHazards n s)) = root 3 (energyTNT (readouts (recalcHazards n s))) * 1.2"
  by (simp_all add: recalcHazards_def Let_def)

lemma estimateEnergy_formula:
  "estimateEnergyMtTNT size_m d v =
     (0.5 * (d * (4 / 3) * pi * (size_m / 2) ^ 3) * (v * 1000) ^ 2) / (4.184 * 10 ^ 15)"
  by (simp add: estimateEnergyMtTNT_def Let_def power3_eq_cube power2_eq_square)

lemma estimateEnergy_nonneg:
  "0 \<le> size_m \<Longrightarrow> 0 \<le> d \<Longrightarrow> 0 \<le> estimateEnergyMtTNT size_m d v"
  unfolding estimateEnergy_formula by simp

lemma cbrt_powr: "0 \<le> x \<Longrightarrow> root 3 x = x powr (1 / 3)"
  using root_powr_inverse[of 3 x] by (cases "x = 0") auto

text \<open>
  C1. For non-negative size, density and speed, the energy in Mt TNT is
  \<open>(0.5 * (density * (4/3) * pi * (size/2)^3) * (speed * 1000)^2) / 4.184e15\<close>, and from
  that energy \<open>E\<close> the radii are \<open>blastKm = 80 + 5 E\<close>, \<open>seismicKm = 40 + 2 E\<close>,
  \<open>tsunamiKm = 120 + 6 E\<close> and \<open>craterKm = 1.2 * E^(1/3)\<close>.
\<close>

theorem recalcHazards_formulas:
  fixes n :: "HazardOverride option" and s :: SimState
  defines "size_m \<equiv> (case Option.bind n new_size of Some x \<Rightarrow> x | None \<Rightarrow> sim_size s)"
  defines "speed_kmps \<equiv> (case Option.bind n new_speed of Some x \<Rightarrow> x | None \<Rightarrow> sim_speed s)"
  defines "density_kgm3 \<equiv>
     (case Option.bind n new_density of Some x \<Rightarrow> x | None \<Rightarrow> sim_density s)"
  defines "E \<equiv> energyTNT (readouts (recalcHazards n s))"
  assumes "0 \<le> size_m" and "0 \<le> density_kgm3" and "0 \<le> speed_kmps"
  shows "E = (0.5 * (density_kgm3 * (4 / 3) * pi * (size_m / 2) ^ 3) * (speed_kmps * 1000) ^ 2)
               / (4.184 * 10 ^ 15) \<and>
         blastKm (recalcHazards n s) = 80 + 5 * E \<and>
         seismicKm (recalcHazards n s) = 40 + 2 * E \<and>
         tsunamiKm (recalcHazards n s) = 120 + 6 * E \<and>
         craterKm (readouts (recalcHazards n s)) = 1.2 * E powr (1 / 3) \<and>
         craterKm (readouts (recalcHazards n s)) = 1.2 * root 3 E"
proof -
  have e: "E = estimateEnergyMtTNT size_m density_kgm3 speed_kmps"
    unfolding E_def size_m_def density_kgm3_def speed_kmps_def by (rule recalcHazards_fields(1))
  then have nn: "0 \<le> E" using assms(5,6) by (simp add: estimateEnergy_nonneg)
  have c: "root 3 E = E powr (1 / 3)" by (rule cbrt_powr[OF nn])
  have f: "E = (0.5 * (density_kgm3 * (4 / 3) * pi * (size_m / 2) ^ 3) * (speed_kmps * 1000) ^ 2)
               / (4.184 * 10 ^ 15)"
    unfolding e by (rule estimateEnergy_formula)
  have r: "blastKm (recalcHazards n s) = 80 + 5 * E" "seismicKm (recalcHazards n s) = 40 + 2 * E"
    "tsunamiKm (recalcHazards n s) = 120 + 6 * E"
    "craterKm (readouts (recalcHazards n s)) = 1.2 * root 3 E"
    unfolding E_def by (simp_all add: recalcHazards_fields(2-5))
  show ?thesis using f r c by simp
qed

theorem recalcHazards_formulas_witness:
  "(0::real) \<le> 120 \<and> (0::real) \<le> 3000 \<and> (0::real) \<le> 18 \<and>
   energyTNT (readouts (recalcHazards None base))
     = (0.5 * (3000 * (4 / 3) * pi * (120 / 2) ^ 3) * (18 * 1000) ^ 2) / (4.184 * 10 ^ 15) \<and>
   blastKm (recalcHazards None base) = 80 + 5 * energyTNT (readouts (recalcHazards None base)) \<and>
   seismicKm (recalcHazards None base) = 40 + 2 * energyTNT (readouts (recalcHazards None base)) \<and>
   tsunamiKm (recalcHazards None base) = 120 + 6 * energyTNT (readouts (recalcHazards None base)) \<and>
   craterKm (readouts (recalcHazards None base))
     = 1.2 * energyTNT (readouts (recalcHazards None base)) powr (1 / 3)"
  using recalcHazards_formulas [where n = None and s = base] by (simp add: base_def)

lemma scenario_A_energy:
  "energyTNT (readouts (recalcHazards None base)) = pi * (1399680 / 41840)"
  by (simp add: recalcHazards_fields(1) base_def estimateEnergy_formula)

lemma scenario_A_energy_bounds:
  "105.09 < energyTNT (readouts (recalcHazards None base)) \<and>
   energyTNT (readouts (recalcHazards None base)) < 105.10"
  unfolding scenario_A_energy using pi_bounds by simp

lemma cbrt_between:
  assumes "0 \<le> a" and "a ^ 3 < x" and "x < b ^ 3" and "0 \<le> b"
  shows "a < root 3 x \<and> root 3 x < b"
proof -
  have "root 3 (a ^ 3) < root 3 x" using assms(2) by simp
  moreover have "root 3 x < root 3 (b ^ 3)" using assms(3) by simp
  ultimately show ?thesis using assms(1,4) by (simp add: real_root_power_cancel)
qed

text \<open>
  C9, as stated, fails: for size 120 m, speed 18 km/s and density 3000 kg per cubic metre the energy
  and the four radii each differ by more than 1 from the values 0.088 Mt, 80.44 km,
  40.18 km, 120.53 km and 0.536 km.
\<close>

theorem scenario_A_not_as_stated:
  "\<not> \<bar>energyTNT (readouts (recalcHazards None base)) - 0.088\<bar> < 1 \<and>
   \<not> \<bar>blastKm (recalcHazards None base) - 80.44\<bar> < 1 \<and>
   \<not> \<bar>seismicKm (recalcHazards None base) - 40.18\<bar> < 1 \<and>
   \<not> \<bar>tsunamiKm (recalcHazards None base) - 120.53\<bar> < 1 \<and>
   \<not> \<bar>craterKm (readouts (recalcHazards None base)) - 0.536\<bar> < 1"
proof -
  define E where "E = energyTNT (readouts (recalcHazards None base))"
  have b: "105.09 < E" "E < 105.10" using scenario_A_energy_bounds by (simp_all add: E_def)
  have "(4.717::real) ^ 3 < 105.09" "(105.10::real) < 4.724 ^ 3"
    by (simp_all add: power3_eq_cube)
  with b have "(4.717::real) ^ 3 < E" "E < 4.724 ^ 3" by linarith+
  then have c: "4.717 < root 3 E \<and> root 3 E < 4.724"
    by (intro cbrt_between) simp_all
  have f: "blastKm (recalcHazards None base) = 80 + E * 5"
    "seismicKm (recalcHazards None base) = 40 + E * 2"
    "tsunamiKm (recalcHazards None base) = 120 + E * 6"
    "craterKm (readouts (recalcHazards None base)) = root 3 E * 1.2"
    unfolding E_def by (rule recalcHazards_fields)+
  show ?thesis unfolding f E_def[symmetric] using b c by simp
qed

text \<open>
  C9, amended: for size 120 m, speed 18 km/s and density 3000 kg per cubic metre the formula gives an
  energy of about 105.09 Mt, and the radii are blastKm about 605.4, seismicKm about 250.2,
  tsunamiKm about 750.5 and craterKm about 5.66.
\<close>

theorem scenario_A_values:
  "105.09 < energyTNT (readouts (recalcHazards None base)) \<and>
   energyTNT (readouts (recalcHazards None base)) < 105.10 \<and>
   605.4 < blastKm (recalcHazards None base) \<and> blastKm (recalcHazards None base) < 605.5 \<and>
   250.1 < seismicKm (recalcHazards None base) \<and> seismicKm (recalcHazards None base) < 250.2 \<and>
   750.5 < tsunamiKm (recalcHazards None base) \<and> tsunamiKm (recalcHazards None base) < 750.6 \<and>
   5.66 < craterKm (readouts (recalcHazards None base)) \<and>
   craterKm (readouts (recalcHazards None base)) < 5.67"
proof -
  define E where "E = energyTNT (readouts (recalcHazards None base))"
  have b: "105.09 < E" "E < 105.10" using scenario_A_energy_bounds by (simp_all add: E_def)
  have "(4.717::real) ^ 3 < 105.09" "(105.10::real) < 4.724 ^ 3"
    by (simp_all add: power3_eq_cube)
  with b have "(4.717::real) ^ 3 < E" "E < 4.724 ^ 3" by linarith+
  then have c: "4.717 < root 3 E \<and> root 3 E < 4.724"
    by (intro cbrt_between) simp_all
  have f: "blastKm (recalcHazards None base) = 80 + E * 5"
    "seismicKm (recalcHazards None base) = 40 + E * 2"
    "tsunamiKm (recalcHazards None base) = 120 + E * 6"
    "craterKm (readouts (recalcHazards None base)) = root 3 E * 1.2"
    unfolding E_def by (rule recalcHazards_fields)+
  show ?thesis unfolding f E_def[symmetric] using b c by simp
qed

end
